theory Spec2Isabelle
  imports Main
begin

section \<open>The Maestral tray application (maestral/gui/main.py)\<close>

text \<open>
  The class \<open>MaestralGuiApp\<close> supervises the sync daemon through a remote proxy and
  mirrors its state in a tray icon and a menu. The embedding below follows the methods of
  the class one by one. The object's attributes are the fields of the record \<open>gui\<close>;
  every call that leaves the object (a call on the daemon proxy, a Qt call, a dialog, a
  spawned shell command) is appended, in program order, to the field \<open>trace\<close>.
  A method returns, exits the process (\<open>sys.exit\<close>) or raises; the three are the
  constructors of \<open>outcome\<close>.
\<close>

subsection \<open>Python values, exceptions, outcomes\<close>

datatype pyval = PyNone | PyBool bool | PyInt int | PyStr string

text \<open>Truth value of an object, as \<open>if x:\<close> tests it.\<close>

fun truthy :: "pyval \<Rightarrow> bool" where
  "truthy PyNone = False"
| "truthy (PyBool b) = b"
| "truthy (PyInt i) = (i \<noteq> 0)"
| "truthy (PyStr s) = (s \<noteq> [])"

datatype exn = AttributeError string | KeyError string

datatype 'a outcome = Returned 'a | Exited int | Raised exn

text \<open>\<open>"{0}".format(n)\<close> for a non-negative integer: its decimal digits.\<close>

definition digit_char :: "nat \<Rightarrow> char" where
  "digit_char d = char_of (48 + d)"

fun str_of_nat :: "nat \<Rightarrow> string" where
  "str_of_nat n = (if n < 10 then [digit_char n]
                   else str_of_nat (n div 10) @ [digit_char (n mod 10)])"

declare str_of_nat.simps [simp del]

subsection \<open>What lies outside the file\<close>

text \<open>
  An error of the daemon arrives as a dictionary; \<open>err["type"]\<close> raises \<open>KeyError\<close>
  when the key is missing.
\<close>

type_synonym err = "string \<rightharpoonup> pyval"

text \<open>
  What the proxy answers during one tick of the timer: \<open>get_maestral_errors()\<close>,
  \<open>sync_errors\<close>, \<open>status\<close>, \<open>paused\<close> and \<open>get_conf("account", "usage")\<close>.
\<close>

record daemon =
  maestral_errors :: "err list"
  sync_errors :: "err list"
  status :: string
  paused :: bool
  usage :: string

text \<open>
  The constants imported from \<open>maestral.sync.constants\<close>, the functions imported from
  \<open>maestral.sync.daemon\<close> and \<open>maestral.gui.utils\<close>, and what the operating system
  answers (\<open>os.getenv\<close>, \<open>os.getpid\<close>, \<open>platform.system\<close>, \<open>sys._MEIPASS\<close>) are
  parameters. The three daemon functions take the configuration name and their field
  holds the value the call returns.
\<close>

record env =
  IDLE :: string
  SYNCING :: string
  PAUSED :: string
  STOPPED :: string
  DISCONNECTED :: string
  SYNC_ERROR :: string
  IS_MACOS_BUNDLE :: bool
  MAESTRAL_CONFIG :: "string option"
  platform_system :: string
  getpid :: nat
  MEIPASS :: string
  elide_string :: "string \<Rightarrow> string"
  get_maestral_pid :: "string \<Rightarrow> pyval"
  start_maestral_daemon_thread :: "string \<Rightarrow> pyval"
  start_maestral_daemon_process :: "string \<Rightarrow> pyval"

text \<open>\<open>CONFIG_NAME = os.getenv("MAESTRAL_CONFIG", "maestral")\<close>\<close>

definition CONFIG_NAME :: "env \<Rightarrow> string" where
  "CONFIG_NAME e = (case MAESTRAL_CONFIG e of None \<Rightarrow> ''maestral'' | Some v \<Rightarrow> v)"

definition PAUSE_TEXT :: string where
  "PAUSE_TEXT = ''Pause Syncing''"

definition RESUME_TEXT :: string where
  "RESUME_TEXT = ''Resume Syncing''"

text \<open>
  \<open>get_system_tray_icon(name, color=color)\<close> is kept symbolic: an icon is the pair of
  arguments it was made from. \<open>get_maestral_daemon_proxy(name)\<close> likewise gives the
  proxy of the daemon with that configuration name.
\<close>

datatype icon = Icon string "string option"

definition get_system_tray_icon :: "string \<Rightarrow> string option \<Rightarrow> icon" where
  "get_system_tray_icon name color = Icon name color"

datatype proxy = Proxy string

definition get_maestral_daemon_proxy :: "string \<Rightarrow> proxy" where
  "get_maestral_daemon_proxy name = Proxy name"

datatype relink_reason = REVOKED | EXPIRED

datatype widget = StatusAction | SyncIssuesAction | PauseAction | AccountUsageAction

datatype event =
    ClearMaestralErrors
  | StopSync
  | StartSync
  | QtSetIcon icon
  | QtSetToolTip string
  | SetText widget string
  | SetEnabled widget bool
  | SyncIssuesWindowReload
  | ExecUserDialog pyval pyval pyval
  | ExecRelinkDialog relink_reason
  | Popen string
  | TimerStop
  | PyroRelease
  | StopDaemonProcess string
  | StartDaemonThread string
  | StartDaemonProcess string
  | DeleteLater
  | QCoreApplicationQuit

subsection \<open>The object\<close>

record action =
  a_text :: string
  a_enabled :: bool

text \<open>
  An attribute that \<open>setup_ui_linked\<close> creates (\<open>pauseAction\<close>, \<open>syncIssuesAction\<close>,
  \<open>accountUsageAction\<close>, \<open>sync_issues_window\<close>) is \<open>None\<close> until it exists; reading
  it then raises \<open>AttributeError\<close>, and \<open>hasattr\<close> is false. The names of the private
  attributes \<open>_started\<close>, \<open>_status\<close>, ... carry the prefix \<open>priv\<close>.
\<close>

record gui =
  mdbx :: "proxy option"
  priv_started :: bool
  priv_context_menu_visible :: bool
  icons :: "string \<rightharpoonup> icon"
  priv_current_icon :: string
  shown_icon :: "icon option"
  tooltip :: string
  priv_n_errors :: "nat option"
  priv_status :: "string option"
  statusAction :: action
  syncIssuesAction :: "action option"
  pauseAction :: "action option"
  accountUsageAction :: "action option"
  sync_issues_window :: "unit option"
  update_ui_timer :: bool
  trace :: "event list"

type_synonym 'a result = "'a outcome \<times> gui"

type_synonym proc = "gui \<Rightarrow> unit result"

definition log :: "event \<Rightarrow> gui \<Rightarrow> gui" where
  "log ev g = g\<lparr>trace := trace g @ [ev]\<rparr>"

definition ret :: proc where
  "ret g = (Returned (), g)"

definition emit :: "event \<Rightarrow> proc" where
  "emit ev g = (Returned (), log ev g)"

text \<open>
  Statements in sequence: the next one runs only when the one before returned; an exit
  or an exception ends the sequence with the state reached.
\<close>

fun do_all :: "proc list \<Rightarrow> proc" where
  "do_all [] g = (Returned (), g)"
| "do_all (a # as) g =
     (case a g of
        (Returned u, g') \<Rightarrow> do_all as g'
      | (Exited c, g') \<Rightarrow> (Exited c, g')
      | (Raised x, g') \<Rightarrow> (Raised x, g'))"

text \<open>A call \<open>self.mdbx.f()\<close>: \<open>AttributeError\<close> while \<open>mdbx\<close> is \<open>None\<close>.\<close>

definition mdbx_call :: "string \<Rightarrow> event \<Rightarrow> proc" where
  "mdbx_call name ev g =
     (case mdbx g of
        None \<Rightarrow> (Raised (AttributeError name), g)
      | Some p \<Rightarrow> (Returned (), log ev g))"

subsection \<open>Icons\<close>

text \<open>\<open>contextMenuVisible\<close>\<close>

definition contextMenuVisible :: "gui \<Rightarrow> bool" where
  "contextMenuVisible g = priv_context_menu_visible g"

text \<open>
  \<open>load_tray_icons\<close>: the dictionary literal \<open>icon_mapping\<close> (a later key replaces an
  equal earlier one), then one icon per key.
\<close>

definition icon_mapping :: "env \<Rightarrow> (string \<rightharpoonup> string)" where
  "icon_mapping e =
     [IDLE e \<mapsto> ''idle'', SYNCING e \<mapsto> ''syncing'', PAUSED e \<mapsto> ''paused'',
      STOPPED e \<mapsto> ''error'', DISCONNECTED e \<mapsto> ''disconnected'',
      SYNC_ERROR e \<mapsto> ''error'']"

definition load_tray_icons :: "env \<Rightarrow> gui \<Rightarrow> (string \<rightharpoonup> icon)" where
  "load_tray_icons e g =
     (let color = (if contextMenuVisible g \<and> platform_system e = ''Darwin''
                   then Some ''light'' else None)
      in (\<lambda>key. case icon_mapping e key of
                   None \<Rightarrow> None
                 | Some name \<Rightarrow> Some (get_system_tray_icon name color)))"

text \<open>
  \<open>setIcon\<close>: the default \<open>self.icons[SYNCING]\<close> of \<open>dict.get\<close> is evaluated before
  the lookup, so a map without the key \<open>SYNCING\<close> raises \<open>KeyError\<close> for every name.
\<close>

definition setIcon :: "env \<Rightarrow> string \<Rightarrow> proc" where
  "setIcon e icon_name g =
     (case icons g (SYNCING e) of
        None \<Rightarrow> (Raised (KeyError (SYNCING e)), g)
      | Some dflt \<Rightarrow>
          (let icn = (case icons g icon_name of None \<Rightarrow> dflt | Some i \<Rightarrow> i)
           in (Returned (),
               log (QtSetIcon icn)
                 (g\<lparr>priv_current_icon := icon_name, shown_icon := Some icn\<rparr>))))"

definition reload_icons :: "env \<Rightarrow> proc" where
  "reload_icons e g =
     (let g1 = g\<lparr>icons := load_tray_icons e g\<rparr>
      in setIcon e (priv_current_icon g1) g1)"

text \<open>\<open>setToolTip\<close>: tray icons in macOS have no tooltip.\<close>

definition setToolTip :: "env \<Rightarrow> string \<Rightarrow> proc" where
  "setToolTip e txt g =
     (if \<not> (platform_system e = ''Darwin'')
      then (Returned (), log (QtSetToolTip txt) (g\<lparr>tooltip := txt\<rparr>))
      else (Returned (), g))"

subsection \<open>Menu entries\<close>

fun widget_name :: "widget \<Rightarrow> string" where
  "widget_name StatusAction = ''statusAction''"
| "widget_name SyncIssuesAction = ''syncIssuesAction''"
| "widget_name PauseAction = ''pauseAction''"
| "widget_name AccountUsageAction = ''accountUsageAction''"

fun get_widget :: "widget \<Rightarrow> gui \<Rightarrow> action option" where
  "get_widget StatusAction g = Some (statusAction g)"
| "get_widget SyncIssuesAction g = syncIssuesAction g"
| "get_widget PauseAction g = pauseAction g"
| "get_widget AccountUsageAction g = accountUsageAction g"

fun put_widget :: "widget \<Rightarrow> action \<Rightarrow> gui \<Rightarrow> gui" where
  "put_widget StatusAction a g = g\<lparr>statusAction := a\<rparr>"
| "put_widget SyncIssuesAction a g = g\<lparr>syncIssuesAction := Some a\<rparr>"
| "put_widget PauseAction a g = g\<lparr>pauseAction := Some a\<rparr>"
| "put_widget AccountUsageAction a g = g\<lparr>accountUsageAction := Some a\<rparr>"

text \<open>\<open>self.w.setText(s)\<close> and \<open>self.w.setEnabled(b)\<close>\<close>

definition setText :: "widget \<Rightarrow> string \<Rightarrow> proc" where
  "setText w s g =
     (case get_widget w g of
        None \<Rightarrow> (Raised (AttributeError (widget_name w)), g)
      | Some a \<Rightarrow> (Returned (), log (SetText w s) (put_widget w (a\<lparr>a_text := s\<rparr>) g)))"

definition setEnabled :: "widget \<Rightarrow> bool \<Rightarrow> proc" where
  "setEnabled w b g =
     (case get_widget w g of
        None \<Rightarrow> (Raised (AttributeError (widget_name w)), g)
      | Some a \<Rightarrow> (Returned (), log (SetEnabled w b) (put_widget w (a\<lparr>a_enabled := b\<rparr>) g)))"

text \<open>\<open>self.sync_issues_window.reload()\<close>\<close>

definition sync_issues_window_reload :: proc where
  "sync_issues_window_reload g =
     (case sync_issues_window g of
        None \<Rightarrow> (Raised (AttributeError ''sync_issues_window''), g)
      | Some w \<Rightarrow> (Returned (), log SyncIssuesWindowReload g))"

subsection \<open>Status reconciliation\<close>

text \<open>
  \<open>update_status\<close>. The cached \<open>_status\<close> and \<open>_n_errors\<close> start as \<open>None\<close>, which
  equals no string and no number.
\<close>

definition update_status :: "env \<Rightarrow> daemon \<Rightarrow> proc" where
  "update_status e d g =
     (case mdbx g of
        None \<Rightarrow> (Raised (AttributeError ''sync_errors''), g)
      | Some p \<Rightarrow>
          (let n_errors = length (sync_errors d);
               stat = status d;
               is_paused = paused d
           in if Some stat = priv_status g \<and> Some n_errors = priv_n_errors g
              then (Returned (), g)
              else
                (let new_icon = (if is_paused then PAUSED e else stat);
                     status_short = elide_string e stat
                 in do_all
                      [setIcon e new_icon,
                       (if n_errors > 0
                        then setText SyncIssuesAction
                               (''Show Sync Issues ('' @ str_of_nat n_errors @ '')...'')
                        else setText SyncIssuesAction ''Show Sync Issues...''),
                       setText PauseAction (if is_paused then RESUME_TEXT else PAUSE_TEXT),
                       setText AccountUsageAction (usage d),
                       setText StatusAction status_short,
                       (\<lambda>g'. if Some n_errors \<noteq> priv_n_errors g'
                             then sync_issues_window_reload g' else ret g'),
                       setToolTip e status_short,
                       (\<lambda>g'. ret (g'\<lparr>priv_n_errors := Some n_errors,
                                      priv_status := Some stat\<rparr>))]
                      g)))"

subsection \<open>Shutdown and restart\<close>

text \<open>
  \<open>quit\<close>: the argument \<open>stop_daemon\<close> is \<open>None\<close>, \<open>True\<close> or \<open>False\<close>. The method
  ends in \<open>sys.exit(0)\<close>.
\<close>

definition sys_exit :: "int \<Rightarrow> proc" where
  "sys_exit c g = (Exited c, g)"

definition quit :: "env \<Rightarrow> bool option \<Rightarrow> proc" where
  "quit e stop_daemon g =
     (let stop = (case stop_daemon of None \<Rightarrow> priv_started g | Some b \<Rightarrow> b)
      in do_all
           [(\<lambda>g'. (Returned (), log TimerStop (g'\<lparr>update_ui_timer := False\<rparr>))),
            (\<lambda>g'. if stop \<and> mdbx g' \<noteq> None \<and> \<not> IS_MACOS_BUNDLE e
                  then do_all [mdbx_call ''_pyroRelease'' PyroRelease,
                               emit (StopDaemonProcess (CONFIG_NAME e))] g'
                  else ret g'),
            emit DeleteLater,
            emit QCoreApplicationQuit,
            sys_exit 0]
           g)"

text \<open>\<open>os.path.join(a, "main")\<close> on a POSIX host.\<close>

definition path_join_main :: "string \<Rightarrow> string" where
  "path_join_main a =
     (if a = [] \<or> last a = CHR ''/'' then a @ ''main'' else a @ ''/'' @ ''main'')"

text \<open>
  \<open>restart\<close>: the shell commands that start the new front end once this process is
  gone, then \<open>self.quit(stop_daemon=True)\<close>. In the bundle the first command is
  formatted from \<open>launch_command\<close> alone, as the source has it.
\<close>

definition restart :: "env \<Rightarrow> proc" where
  "restart e g =
     (let pid = str_of_nat (getpid e);
          config_name = (case MAESTRAL_CONFIG e of None \<Rightarrow> ''maestral'' | Some v \<Rightarrow> v);
          launch_command = path_join_main (MEIPASS e)
      in do_all
           [(\<lambda>g'. if IS_MACOS_BUNDLE e
                  then emit (Popen (''lsof -p '' @ launch_command @
                                    '' +r 1 &>/dev/null; '' @ launch_command)) g'
                  else ret g'),
            (\<lambda>g'. if platform_system e = ''Darwin''
                  then emit (Popen (''lsof -p '' @ pid @
                                    '' +r 1 &>/dev/null; maestral gui --config-name='' @
                                    [CHR 0x27] @ config_name @ [CHR 0x27])) g'
                  else if platform_system e = ''Linux''
                  then emit (Popen (''tail --pid='' @ pid @
                                    '' -f /dev/null; maestral gui --config-name='' @
                                    [CHR 0x27] @ config_name @ [CHR 0x27])) g'
                  else ret g'),
            quit e (Some True)]
           g)"

subsection \<open>Errors reported by the daemon\<close>

text \<open>
  \<open>UserDialog(title, message, exc_info).exec_()\<close> and \<open>RelinkDialog(self, reason).exec_()\<close>
  block until the user closes them; what the dialogs themselves do is in other modules.
\<close>

definition exec_user_dialog :: "pyval \<Rightarrow> pyval \<Rightarrow> pyval \<Rightarrow> proc" where
  "exec_user_dialog title message exc_info = emit (ExecUserDialog title message exc_info)"

definition exec_relink_dialog :: "relink_reason \<Rightarrow> proc" where
  "exec_relink_dialog reason = emit (ExecRelinkDialog reason)"

text \<open>\<open>_stop_and_exec_relink_dialog\<close>\<close>

definition stop_and_exec_relink_dialog :: "env \<Rightarrow> relink_reason \<Rightarrow> proc" where
  "stop_and_exec_relink_dialog e reason =
     do_all
       [setIcon e (SYNC_ERROR e),
        (\<lambda>g. if mdbx g \<noteq> None then mdbx_call ''stop_sync'' StopSync g else ret g),
        (\<lambda>g. if pauseAction g \<noteq> None
              then do_all [setText PauseAction ''Start Syncing'',
                           setEnabled PauseAction False] g
              else ret g),
        exec_relink_dialog reason]"

text \<open>\<open>_stop_and_exec_error_dialog\<close>\<close>

definition stop_and_exec_error_dialog :: "env \<Rightarrow> pyval \<Rightarrow> pyval \<Rightarrow> pyval \<Rightarrow> proc" where
  "stop_and_exec_error_dialog e title message exc_info =
     do_all
       [setIcon e (SYNC_ERROR e),
        (\<lambda>g. if mdbx g \<noteq> None then mdbx_call ''stop_sync'' StopSync g else ret g),
        (\<lambda>g. if pauseAction g \<noteq> None
              then setText PauseAction ''Start Syncing'' g
              else ret g),
        exec_user_dialog title message exc_info]"

text \<open>The \<open>if\<close>/\<open>elif\<close> chain of \<open>update_error\<close> on \<open>err = errs[-1]\<close>.\<close>

definition dispatch :: "env \<Rightarrow> err \<Rightarrow> proc" where
  \<open>dispatch e er g =
     (case er ''type'' of
        None \<Rightarrow> (Raised (KeyError ''type''), g)
      | Some ty \<Rightarrow>
          if ty = PyStr ''RevFileError'' \<or> ty = PyStr ''BadInputError'' then
            (case er ''title'' of
               None \<Rightarrow> (Raised (KeyError ''title''), g)
             | Some title \<Rightarrow>
                 (case er ''message'' of
                    None \<Rightarrow> (Raised (KeyError ''message''), g)
                  | Some message \<Rightarrow> stop_and_exec_error_dialog e title message PyNone g))
          else if ty = PyStr ''CursorResetError'' then
            stop_and_exec_error_dialog e
              (PyStr ''Dropbox has reset its sync state.'')
              (PyStr ''Please go to "Rebuild index..." to re-sync your Dropbox.'')
              PyNone g
          else if ty = PyStr ''DropboxDeletedError'' then
            do_all [mdbx_call ''stop_sync'' StopSync, restart e] g
          else if ty = PyStr ''DropboxAuthError'' then
            stop_and_exec_relink_dialog e REVOKED g
          else if ty = PyStr ''TokenExpiredError'' then
            stop_and_exec_relink_dialog e EXPIRED g
          else
            (case er ''traceback'' of
               None \<Rightarrow> (Raised (KeyError ''traceback''), g)
             | Some tb \<Rightarrow>
                 do_all
                   [stop_and_exec_error_dialog e
                      (PyStr ''An unexpected error occurred.'')
                      (PyStr (''Please restart Maestral to continue syncing and contact '' @
                              ''the developer with the information below.''))
                      tb,
                    mdbx_call ''start_sync'' StartSync]
                   g))\<close>

text \<open>\<open>update_error\<close>\<close>

definition update_error :: "env \<Rightarrow> daemon \<Rightarrow> proc" where
  "update_error e d g =
     (case mdbx g of
        None \<Rightarrow> (Raised (AttributeError ''get_maestral_errors''), g)
      | Some p \<Rightarrow>
          (let errs = maestral_errors d
           in if errs = [] then (Returned (), g)
              else do_all
                     [mdbx_call ''clear_maestral_errors'' ClearMaestralErrors,
                      dispatch e (last errs)]
                     g))"

text \<open>\<open>update_ui\<close>, the slot of the 500 ms timer.\<close>

definition update_ui :: "env \<Rightarrow> daemon \<Rightarrow> proc" where
  "update_ui e d g =
     (if mdbx g \<noteq> None then do_all [update_status e d, update_error e d] g else ret g)"

subsection \<open>Finding or starting the daemon\<close>

text \<open>
  \<open>_get_or_start_maestral_daemon\<close>. The caller, \<open>load_maestral\<close>, stores the proxy in
  \<open>self.mdbx\<close> when the method returns.
\<close>

definition get_or_start_maestral_daemon :: "env \<Rightarrow> gui \<Rightarrow> proxy result" where
  "get_or_start_maestral_daemon e g =
     (let pid = get_maestral_pid e (CONFIG_NAME e)
      in if truthy pid
         then (Returned (get_maestral_daemon_proxy (CONFIG_NAME e)),
               g\<lparr>priv_started := False\<rparr>)
         else
           (let res = (if IS_MACOS_BUNDLE e
                       then start_maestral_daemon_thread e (CONFIG_NAME e)
                       else start_maestral_daemon_process e (CONFIG_NAME e));
                g1 = (log (if IS_MACOS_BUNDLE e
                           then StartDaemonThread (CONFIG_NAME e)
                           else StartDaemonProcess (CONFIG_NAME e)) g)
                       \<lparr>priv_started := True\<rparr>
            in case (if res = PyBool False
                     then do_all
                            [exec_user_dialog
                               (PyStr ''Could not start Maestral'')
                               (PyStr (''Could not start or connect to sync daemon. Please try again and '' @
                                       ''contact the developer if this issue persists.''))
                               PyNone,
                             quit e None] g1
                     else ret g1) of
                 (Returned u, g2) \<Rightarrow>
                   (Returned (get_maestral_daemon_proxy (CONFIG_NAME e)), g2)
               | (Exited c, g2) \<Rightarrow> (Exited c, g2)
               | (Raised x, g2) \<Rightarrow> (Raised x, g2)))"

subsection \<open>A concrete configuration\<close>

text \<open>
  A Linux host without a running daemon, and the object as \<open>setup_ui_linked\<close> leaves it;
  the theorems below are instantiated at these values.
\<close>

definition example_env :: env where
  "example_env =
     \<lparr>IDLE = ''Up to date'', SYNCING = ''Syncing...'', PAUSED = ''Syncing paused'',
      STOPPED = ''Syncing stopped'', DISCONNECTED = ''Connecting...'',
      SYNC_ERROR = ''Sync error'', IS_MACOS_BUNDLE = False, MAESTRAL_CONFIG = None,
      platform_system = ''Linux'', getpid = 4242, MEIPASS = [],
      elide_string = take 30,
      get_maestral_pid = (\<lambda>name. PyNone),
      start_maestral_daemon_thread = (\<lambda>name. PyBool True),
      start_maestral_daemon_process = (\<lambda>name. PyBool True)\<rparr>"

definition example_gui :: gui where
  "example_gui =
     \<lparr>mdbx = Some (Proxy ''maestral''), priv_started = True,
      priv_context_menu_visible = False,
      icons = (\<lambda>key. case icon_mapping example_env key of
                        None \<Rightarrow> None
                      | Some name \<Rightarrow> Some (Icon name None)),
      priv_current_icon = ''Up to date'', shown_icon = Some (Icon ''idle'' None),
      tooltip = ''Up to date'', priv_n_errors = None, priv_status = None,
      statusAction = \<lparr>a_text = ''Up to date'', a_enabled = False\<rparr>,
      syncIssuesAction = Some \<lparr>a_text = ''Show Sync Issues...'', a_enabled = True\<rparr>,
      pauseAction = Some \<lparr>a_text = ''Pause Syncing'', a_enabled = True\<rparr>,
      accountUsageAction = Some \<lparr>a_text = ''1.2 GB of 2 GB used'', a_enabled = False\<rparr>,
      sync_issues_window = Some (), update_ui_timer = True, trace = []\<rparr>"

definition example_daemon :: daemon where
  "example_daemon =
     \<lparr>maestral_errors = [], sync_errors = [], status = ''Syncing...'', paused = False,
      usage = ''1.2 GB of 2 GB used''\<rparr>"

definition err_of_type :: "string \<Rightarrow> err" where
  "err_of_type ty =
     [''type'' \<mapsto> PyStr ty, ''title'' \<mapsto> PyStr ''Could not sync'',
      ''message'' \<mapsto> PyStr ''Something went wrong.'',
      ''traceback'' \<mapsto> PyStr ''Traceback (most recent call last): ...'']"

subsection \<open>Properties of traces\<close>

text \<open>
  \<open>emits_only P a\<close>: whatever the state, the method \<open>a\<close> only appends to the trace,
  and every event it appends satisfies \<open>P\<close>.
\<close>

definition emits_only :: "(event \<Rightarrow> bool) \<Rightarrow> proc \<Rightarrow> bool" where
  "emits_only P a = (\<forall>g. \<exists>evs. trace (snd (a g)) = trace g @ evs \<and> list_all P evs)"

text \<open>The events a method appended, given the state before and the state after.\<close>

definition new_events :: "gui \<Rightarrow> gui \<Rightarrow> event list" where
  "new_events g g' = drop (length (trace g)) (trace g')"

text \<open>The same host as a macOS application bundle.\<close>

definition bundle_env :: env where
  "bundle_env =
     example_env\<lparr>IS_MACOS_BUNDLE := True, platform_system := ''Darwin'',
                  MEIPASS := ''/Applications/Maestral.app/Contents/MacOS''\<rparr>"

text \<open>The shell commands that \<open>restart\<close> hands to \<open>Popen\<close>, in the order it spawns them.\<close>

definition restart_commands :: "env \<Rightarrow> string list" where
  "restart_commands e =
     (if IS_MACOS_BUNDLE e
      then [''lsof -p '' @ path_join_main (MEIPASS e) @ '' +r 1 &>/dev/null; '' @
            path_join_main (MEIPASS e)]
      else []) @
     (if platform_system e = ''Darwin''
      then [''lsof -p '' @ str_of_nat (getpid e) @
            '' +r 1 &>/dev/null; maestral gui --config-name='' @
            [CHR 0x27] @ CONFIG_NAME e @ [CHR 0x27]]
      else if platform_system e = ''Linux''
      then [''tail --pid='' @ str_of_nat (getpid e) @
            '' -f /dev/null; maestral gui --config-name='' @
            [CHR 0x27] @ CONFIG_NAME e @ [CHR 0x27]]
      else [])"

text \<open>
  The object before \<open>load_maestral\<close> has run, a host where the daemon is already
  running, and a host where starting the daemon reports \<open>False\<close>.
\<close>

definition unlinked_gui :: gui where
  "unlinked_gui =
     example_gui\<lparr>mdbx := None, priv_started := False,
                  priv_current_icon := ''Connecting...'',
                  shown_icon := Some (Icon ''disconnected'' None), tooltip := ''Not linked.'',
                  statusAction := \<lparr>a_text = ''Setting up...'', a_enabled = False\<rparr>,
                  syncIssuesAction := None, pauseAction := None, accountUsageAction := None,
                  sync_issues_window := None\<rparr>"

definition running_env :: env where
  "running_env = example_env\<lparr>get_maestral_pid := (\<lambda>name. PyInt 4711)\<rparr>"

definition failing_env :: env where
  "failing_env = example_env\<lparr>start_maestral_daemon_process := (\<lambda>name. PyBool False)\<rparr>"



section \<open>Verified properties\<close>

subsection \<open>Sequencing\<close>

lemma emits_only_do_all:
  "list_all (emits_only P) as \<Longrightarrow> emits_only P (do_all as)"
proof (induction as)
  case Nil
  show ?case by (simp add: emits_only_def)
next
  case (Cons a as)
  then have a: "emits_only P a" and as: "emits_only P (do_all as)" by simp_all
  show ?case
    unfolding emits_only_def
  proof
    fix g
    obtain o1 g1 where ag: "a g = (o1, g1)" by (cases "a g")
    from a ag obtain evs1 where e1: "trace g1 = trace g @ evs1" "list_all P evs1"
      unfolding emits_only_def by (metis snd_conv)
    show "\<exists>evs. trace (snd (do_all (a # as) g)) = trace g @ evs \<and> list_all P evs"
    proof (cases o1)
      case (Returned u)
      from as obtain evs2
        where e2: "trace (snd (do_all as g1)) = trace g1 @ evs2" "list_all P evs2"
        unfolding emits_only_def by blast
      have "trace (snd (do_all (a # as) g)) = trace g @ (evs1 @ evs2)"
        using ag Returned e1 e2 by simp
      moreover have "list_all P (evs1 @ evs2)" using e1 e2 by simp
      ultimately show ?thesis by blast
    next
      case (Exited c)
      then show ?thesis using ag e1 by auto
    next
      case (Raised x)
      then show ?thesis using ag e1 by auto
    qed
  qed
qed

lemma emits_only_ret [simp]: "emits_only P ret"
  by (simp add: emits_only_def ret_def)

lemma emits_only_sys_exit [simp]: "emits_only P (sys_exit c)"
  by (simp add: emits_only_def sys_exit_def)

lemma emits_only_emit [simp]: "P ev \<Longrightarrow> emits_only P (emit ev)"
  by (simp add: emits_only_def emit_def log_def)

lemma emits_only_mdbx_call [simp]: "P ev \<Longrightarrow> emits_only P (mdbx_call name ev)"
  by (simp add: emits_only_def mdbx_call_def log_def split: option.splits)

lemma emits_only_setIcon [simp]:
  "(\<And>i. P (QtSetIcon i)) \<Longrightarrow> emits_only P (setIcon e name)"
  by (simp add: emits_only_def setIcon_def log_def Let_def split: option.splits)

lemma emits_only_setText [simp]: "P (SetText w s) \<Longrightarrow> emits_only P (setText w s)"
  by (cases w) (simp_all add: emits_only_def setText_def log_def split: option.splits)

lemma emits_only_setEnabled [simp]: "P (SetEnabled w b) \<Longrightarrow> emits_only P (setEnabled w b)"
  by (cases w) (simp_all add: emits_only_def setEnabled_def log_def split: option.splits)

lemma emits_only_cond [simp]:
  "emits_only P a \<Longrightarrow> emits_only P b \<Longrightarrow> emits_only P (\<lambda>g. if c g then a g else b g)"
  by (simp add: emits_only_def)

subsection \<open>Shutdown\<close>

text \<open>What \<open>quit\<close> does, in closed form: it never returns, and never raises.\<close>

lemma quit_eval:
  "quit e sd g =
     (Exited 0,
      g\<lparr>update_ui_timer := False,
        trace := trace g @ [TimerStop] @
          (if (case sd of None \<Rightarrow> priv_started g | Some b \<Rightarrow> b) \<and> mdbx g \<noteq> None
              \<and> \<not> IS_MACOS_BUNDLE e
           then [PyroRelease, StopDaemonProcess (CONFIG_NAME e)] else []) @
          [DeleteLater, QCoreApplicationQuit]\<rparr>)"
  by (simp add: quit_def Let_def log_def emit_def ret_def sys_exit_def mdbx_call_def
           split: option.splits)

text \<open>
  Claim C3, as amended. \<open>quit()\<close> without \<open>stop_daemon\<close> always ends the process with
  exit code 0, and it stops the daemon process exactly when \<open>_started\<close> is true, a proxy
  is held and the application is not the macOS bundle.
\<close>

theorem quit_default_stops_daemon_iff:
  "fst (quit e None g) = Exited 0 \<and>
   (StopDaemonProcess (CONFIG_NAME e) \<in> set (new_events g (snd (quit e None g)))
     \<longleftrightarrow> priv_started g \<and> mdbx g \<noteq> None \<and> \<not> IS_MACOS_BUNDLE e)"
  by (simp add: quit_eval new_events_def)

theorem quit_default_stops_daemon_iff_witness:
  "fst (quit example_env None example_gui) = Exited 0 \<and>
   StopDaemonProcess ''maestral'' \<in>
     set (new_events example_gui (snd (quit example_env None example_gui)))"
  using quit_default_stops_daemon_iff [of example_env example_gui]
  by (simp add: example_env_def example_gui_def CONFIG_NAME_def)

text \<open>
  Claim C3 as stated fails, in two ways. In the macOS bundle the object has \<open>_started\<close>
  true and holds a proxy, and \<open>quit()\<close> does not call \<open>stop_maestral_daemon_process\<close>.
  And where \<open>_started\<close> is true but no proxy is held yet (the state in which
  \<open>_get_or_start_maestral_daemon\<close> calls \<open>quit()\<close> after a failed start), the daemon
  process is not stopped either.
\<close>

theorem quit_default_counterexample:
  "priv_started example_gui \<and> mdbx example_gui \<noteq> None \<and>
   StopDaemonProcess (CONFIG_NAME bundle_env) \<notin>
     set (new_events example_gui (snd (quit bundle_env None example_gui))) \<and>
   priv_started (unlinked_gui\<lparr>priv_started := True\<rparr>) \<and>
   StopDaemonProcess (CONFIG_NAME example_env) \<notin>
     set (new_events (unlinked_gui\<lparr>priv_started := True\<rparr>)
            (snd (quit example_env None (unlinked_gui\<lparr>priv_started := True\<rparr>))))"
  by (simp add: quit_eval new_events_def bundle_env_def example_env_def example_gui_def
        unlinked_gui_def)

subsection \<open>Restart\<close>

lemma restart_eval:
  "restart e g = quit e (Some True) (g\<lparr>trace := trace g @ map Popen (restart_commands e)\<rparr>)"
  by (simp add: restart_def restart_commands_def Let_def emit_def ret_def log_def
        CONFIG_NAME_def quit_eval)




subsection \<open>Icons\<close>

lemma load_tray_icons_SYNCING:
  "\<exists>i. load_tray_icons e g (SYNCING e) = Some i"
  by (simp add: load_tray_icons_def icon_mapping_def Let_def)

lemma setIcon_Some:
  "icons g (SYNCING e) = Some dflt \<Longrightarrow>
   setIcon e name g =
     (Returned (),
      log (QtSetIcon (case icons g name of None \<Rightarrow> dflt | Some i \<Rightarrow> i))
        (g\<lparr>priv_current_icon := name,
           shown_icon := Some (case icons g name of None \<Rightarrow> dflt | Some i \<Rightarrow> i)\<rparr>))"
  by (simp add: setIcon_def Let_def)

text \<open>
  Claim C10. With the icons that \<open>load_tray_icons\<close> made, \<open>setIcon\<close> on a key that is
  not in the map returns normally: it shows the icon stored under \<open>SYNCING\<close>, and
  records the key it was given as \<open>_current_icon\<close>. A later \<open>reload_icons\<close> is
  \<open>setIcon\<close> of that same key on the reloaded map; it returns too and keeps the key.
\<close>

theorem setIcon_unknown_key_falls_back:
  assumes "icons g = load_tray_icons e g0" and "icons g icon_name = None"
  shows "\<exists>dflt g'. icons g (SYNCING e) = Some dflt \<and>
           setIcon e icon_name g = (Returned (), g') \<and>
           shown_icon g' = Some dflt \<and> priv_current_icon g' = icon_name \<and>
           new_events g g' = [QtSetIcon dflt] \<and>
           reload_icons e g' = setIcon e icon_name (g'\<lparr>icons := load_tray_icons e g'\<rparr>) \<and>
           fst (reload_icons e g') = Returned () \<and>
           priv_current_icon (snd (reload_icons e g')) = icon_name"
proof -
  obtain dflt where d: "icons g (SYNCING e) = Some dflt"
    using assms(1) load_tray_icons_SYNCING[of e g0] by auto
  define g' where
    "g' = log (QtSetIcon dflt) (g\<lparr>priv_current_icon := icon_name, shown_icon := Some dflt\<rparr>)"
  have s: "setIcon e icon_name g = (Returned (), g')"
    using setIcon_Some[OF d, of icon_name] assms(2) by (simp add: g'_def)
  have k: "priv_current_icon g' = icon_name" "shown_icon g' = Some dflt"
    "new_events g g' = [QtSetIcon dflt]"
    by (simp_all add: g'_def log_def new_events_def)
  obtain i where i: "icons (g'\<lparr>icons := load_tray_icons e g'\<rparr>) (SYNCING e) = Some i"
    using load_tray_icons_SYNCING[of e g'] by auto
  have r: "reload_icons e g' = setIcon e icon_name (g'\<lparr>icons := load_tray_icons e g'\<rparr>)"
    using k(1) by (simp add: reload_icons_def Let_def)
  have "fst (reload_icons e g') = Returned ()"
    "priv_current_icon (snd (reload_icons e g')) = icon_name"
    unfolding r setIcon_Some[OF i] by (simp_all add: log_def)
  with d s k r show ?thesis by blast
qed

theorem setIcon_unknown_key_falls_back_witness:
  "\<exists>dflt g'. icons example_gui (SYNCING example_env) = Some dflt \<and>
     setIcon example_env ''Downloading 3/10...'' example_gui = (Returned (), g') \<and>
     shown_icon g' = Some dflt \<and> priv_current_icon g' = ''Downloading 3/10...'' \<and>
     new_events example_gui g' = [QtSetIcon dflt] \<and>
     reload_icons example_env g' =
       setIcon example_env ''Downloading 3/10...''
         (g'\<lparr>icons := load_tray_icons example_env g'\<rparr>) \<and>
     fst (reload_icons example_env g') = Returned () \<and>
     priv_current_icon (snd (reload_icons example_env g')) = ''Downloading 3/10...''"
proof -
  have a: "icons example_gui = load_tray_icons example_env example_gui"
    by (simp add: example_gui_def load_tray_icons_def contextMenuVisible_def
          get_system_tray_icon_def Let_def cong: option.case_cong)
  have b: "icons example_gui ''Downloading 3/10...'' = None"
    by (simp add: example_gui_def example_env_def icon_mapping_def)
  show ?thesis using setIcon_unknown_key_falls_back[OF a b] .
qed

subsection \<open>Errors reported by the daemon\<close>

text \<open>
  Claim C2. With a proxy held, handling the batch \<open>es @ [x]\<close> in one call of
  \<open>update_error\<close> is: clear the daemon's queue (which acknowledges every error of the
  batch), then run the recovery action of the last error \<open>x\<close>, and nothing else. The
  earlier errors \<open>es\<close> do not appear in what is done, so the outcome, the state and the
  trace are those of handling \<open>[x]\<close> alone.
\<close>

theorem update_error_last_only:
  assumes "mdbx g \<noteq> None"
  shows "update_error e (d\<lparr>maestral_errors := es @ [x]\<rparr>) g =
           dispatch e x (log ClearMaestralErrors g) \<and>
         update_error e (d\<lparr>maestral_errors := es @ [x]\<rparr>) g =
           update_error e (d\<lparr>maestral_errors := [x]\<rparr>) g"
  using assms
  by (cases "dispatch e x (log ClearMaestralErrors g)")
     (auto simp: update_error_def mdbx_call_def split: outcome.splits)

theorem update_error_last_only_witness:
  "mdbx example_gui \<noteq> None \<and>
   update_error example_env
     (example_daemon\<lparr>maestral_errors :=
        [err_of_type ''CursorResetError''] @ [err_of_type ''DropboxDeletedError'']\<rparr>)
     example_gui =
   dispatch example_env (err_of_type ''DropboxDeletedError'')
     (log ClearMaestralErrors example_gui) \<and>
   update_error example_env
     (example_daemon\<lparr>maestral_errors :=
        [err_of_type ''CursorResetError''] @ [err_of_type ''DropboxDeletedError'']\<rparr>)
     example_gui =
   update_error example_env
     (example_daemon\<lparr>maestral_errors := [err_of_type ''DropboxDeletedError'']\<rparr>)
     example_gui \<and>
   fst (update_error example_env
          (example_daemon\<lparr>maestral_errors :=
             [err_of_type ''CursorResetError''] @ [err_of_type ''DropboxDeletedError'']\<rparr>)
          example_gui) = Exited 0 \<and>
   new_events example_gui
     (snd (update_error example_env
             (example_daemon\<lparr>maestral_errors :=
                [err_of_type ''CursorResetError''] @ [err_of_type ''DropboxDeletedError'']\<rparr>)
             example_gui)) =
     [ClearMaestralErrors, StopSync] @ map Popen (restart_commands example_env) @
     [TimerStop, PyroRelease, StopDaemonProcess ''maestral'', DeleteLater,
      QCoreApplicationQuit]"
proof -
  have m: "mdbx example_gui \<noteq> None" by (simp add: example_gui_def)
  have m': "mdbx example_gui = Some (Proxy ''maestral'')" by (simp add: example_gui_def)
  have k: "\<not> IS_MACOS_BUNDLE example_env" "CONFIG_NAME example_env = ''maestral''"
    by (simp_all add: example_env_def CONFIG_NAME_def)
  have t: "err_of_type ''DropboxDeletedError'' ''type'' = Some (PyStr ''DropboxDeletedError'')"
    by (simp add: err_of_type_def)
  have dp: "dispatch example_env (err_of_type ''DropboxDeletedError'')
              (log ClearMaestralErrors example_gui) =
            restart example_env (log StopSync (log ClearMaestralErrors example_gui))"
    using t m' by (simp add: dispatch_def mdbx_call_def log_def restart_eval quit_eval)
  note u = update_error_last_only
    [OF m, where e = example_env and d = example_daemon
       and es = "[err_of_type ''CursorResetError'']"
       and x = "err_of_type ''DropboxDeletedError''"]
  have l: "mdbx (log StopSync (log ClearMaestralErrors example_gui)) \<noteq> None"
    "trace (log StopSync (log ClearMaestralErrors example_gui)) =
       trace example_gui @ [ClearMaestralErrors, StopSync]"
    using m by (simp_all add: log_def)
  let ?B = "update_error example_env
     (example_daemon\<lparr>maestral_errors :=
        [err_of_type ''CursorResetError''] @ [err_of_type ''DropboxDeletedError'']\<rparr>)
     example_gui"
  have A: "?B = dispatch example_env (err_of_type ''DropboxDeletedError'')
                  (log ClearMaestralErrors example_gui)"
    and B: "?B = update_error example_env
                   (example_daemon\<lparr>maestral_errors := [err_of_type ''DropboxDeletedError'']\<rparr>)
                   example_gui"
    using u by blast+
  have C: "dispatch example_env (err_of_type ''DropboxDeletedError'')
             (log ClearMaestralErrors example_gui) =
           (Exited 0,
            (log StopSync (log ClearMaestralErrors example_gui))
              \<lparr>update_ui_timer := False,
                trace := trace example_gui @ [ClearMaestralErrors, StopSync] @
                  map Popen (restart_commands example_env) @
                  [TimerStop, PyroRelease, StopDaemonProcess ''maestral'', DeleteLater,
                   QCoreApplicationQuit]\<rparr>)"
    using k l by (simp add: dp restart_eval quit_eval)
  have f: "fst ?B = Exited 0"
    by (simp only: A C fst_conv)
  have n: "new_events example_gui (snd ?B) =
     [ClearMaestralErrors, StopSync] @ map Popen (restart_commands example_env) @
     [TimerStop, PyroRelease, StopDaemonProcess ''maestral'', DeleteLater,
      QCoreApplicationQuit]"
    by (simp only: A C snd_conv) (simp add: new_events_def)
  show ?thesis
    using m A B f n by blast
qed

subsection \<open>Finding or starting the daemon\<close>

text \<open>
  Claim C7, as amended. When \<open>get_maestral_pid\<close> gives a pid, nothing is launched,
  \<open>_started\<close> becomes false and the proxy of the configuration is returned. When it gives
  none, the daemon is launched once (as a thread in the macOS bundle, as a process
  otherwise) and \<open>_started\<close> becomes true; the proxy is returned unless the launcher
  returned \<open>False\<close>, in which case a dialog is shown and the front end quits without
  returning.
\<close>

theorem get_or_start_daemon_cases:
  assumes "res = (if IS_MACOS_BUNDLE e then start_maestral_daemon_thread e (CONFIG_NAME e)
                  else start_maestral_daemon_process e (CONFIG_NAME e))"
      and "launch = (if IS_MACOS_BUNDLE e then StartDaemonThread (CONFIG_NAME e)
                     else StartDaemonProcess (CONFIG_NAME e))"
  shows "(truthy (get_maestral_pid e (CONFIG_NAME e)) \<longrightarrow>
            get_or_start_maestral_daemon e g =
              (Returned (Proxy (CONFIG_NAME e)), g\<lparr>priv_started := False\<rparr>)) \<and>
         (\<not> truthy (get_maestral_pid e (CONFIG_NAME e)) \<and> res \<noteq> PyBool False \<longrightarrow>
            get_or_start_maestral_daemon e g =
              (Returned (Proxy (CONFIG_NAME e)),
               g\<lparr>priv_started := True, trace := trace g @ [launch]\<rparr>)) \<and>
         (\<not> truthy (get_maestral_pid e (CONFIG_NAME e)) \<and> res = PyBool False \<longrightarrow>
            fst (get_or_start_maestral_daemon e g) = Exited 0 \<and>
            priv_started (snd (get_or_start_maestral_daemon e g)) \<and>
            new_events g (snd (get_or_start_maestral_daemon e g)) =
              [launch,
               ExecUserDialog (PyStr ''Could not start Maestral'')
                 (PyStr (''Could not start or connect to sync daemon. Please try again and '' @
                         ''contact the developer if this issue persists.''))
                 PyNone,
               TimerStop] @
              (if mdbx g \<noteq> None \<and> \<not> IS_MACOS_BUNDLE e
               then [PyroRelease, StopDaemonProcess (CONFIG_NAME e)] else []) @
              [DeleteLater, QCoreApplicationQuit])"
  using assms
  by (simp add: get_or_start_maestral_daemon_def Let_def get_maestral_daemon_proxy_def
        exec_user_dialog_def emit_def ret_def log_def quit_eval new_events_def)

text \<open>
  Claim C7 as stated fails: with no daemon running and a launcher that reports \<open>False\<close>
  the method does not return a proxy; the process exits.
\<close>

theorem get_or_start_daemon_counterexample:
  "\<not> truthy (get_maestral_pid failing_env (CONFIG_NAME failing_env)) \<and>
   fst (get_or_start_maestral_daemon failing_env unlinked_gui) = Exited 0"
  by (simp add: get_or_start_maestral_daemon_def Let_def get_maestral_daemon_proxy_def
        exec_user_dialog_def emit_def ret_def log_def quit_eval
        failing_env_def example_env_def unlinked_gui_def example_gui_def CONFIG_NAME_def)

theorem get_or_start_daemon_cases_witness:
  "get_or_start_maestral_daemon running_env unlinked_gui =
     (Returned (Proxy ''maestral''), unlinked_gui\<lparr>priv_started := False\<rparr>) \<and>
   get_or_start_maestral_daemon example_env unlinked_gui =
     (Returned (Proxy ''maestral''),
      unlinked_gui\<lparr>priv_started := True,
                   trace := trace unlinked_gui @ [StartDaemonProcess ''maestral'']\<rparr>) \<and>
   fst (get_or_start_maestral_daemon failing_env unlinked_gui) = Exited 0 \<and>
   priv_started (snd (get_or_start_maestral_daemon failing_env unlinked_gui)) \<and>
   new_events unlinked_gui (snd (get_or_start_maestral_daemon failing_env unlinked_gui)) =
     [StartDaemonProcess ''maestral'',
      ExecUserDialog (PyStr ''Could not start Maestral'')
        (PyStr (''Could not start or connect to sync daemon. Please try again and '' @
                ''contact the developer if this issue persists.''))
        PyNone,
      TimerStop, DeleteLater, QCoreApplicationQuit]"
proof -
  note a = get_or_start_daemon_cases[OF refl refl, of running_env unlinked_gui]
  note b = get_or_start_daemon_cases[OF refl refl, of example_env unlinked_gui]
  note c = get_or_start_daemon_cases[OF refl refl, of failing_env unlinked_gui]
  have 1: "truthy (get_maestral_pid running_env (CONFIG_NAME running_env))"
    "CONFIG_NAME running_env = ''maestral''"
    by (simp_all add: running_env_def example_env_def CONFIG_NAME_def)
  have 2: "\<not> truthy (get_maestral_pid example_env (CONFIG_NAME example_env))"
    "CONFIG_NAME example_env = ''maestral''" "\<not> IS_MACOS_BUNDLE example_env"
    "start_maestral_daemon_process example_env ''maestral'' \<noteq> PyBool False"
    by (simp_all add: example_env_def CONFIG_NAME_def)
  have 3: "\<not> truthy (get_maestral_pid failing_env (CONFIG_NAME failing_env))"
    "CONFIG_NAME failing_env = ''maestral''" "\<not> IS_MACOS_BUNDLE failing_env"
    "start_maestral_daemon_process failing_env ''maestral'' = PyBool False"
    "mdbx unlinked_gui = None"
    by (simp_all add: failing_env_def example_env_def CONFIG_NAME_def unlinked_gui_def)
  show ?thesis using a b c 1 2 3 by simp
qed

subsection \<open>Clearing the error queue\<close>

lemma emits_onlyD:
  "emits_only P a \<Longrightarrow> \<exists>evs. trace (snd (a g)) = trace g @ evs \<and> list_all P evs"
  by (simp add: emits_only_def)

lemma emits_only_restart:
  "(\<And>c. P (Popen c)) \<Longrightarrow> P TimerStop \<Longrightarrow> P PyroRelease \<Longrightarrow> P (StopDaemonProcess (CONFIG_NAME e))
   \<Longrightarrow> P DeleteLater \<Longrightarrow> P QCoreApplicationQuit \<Longrightarrow> emits_only P (restart e)"
  by (auto simp add: emits_only_def restart_eval quit_eval list_all_iff)

lemma emits_only_error_dialog:
  assumes "\<And>i. P (QtSetIcon i)" "P StopSync" "P (SetText PauseAction ''Start Syncing'')"
    "P (ExecUserDialog t m x)"
  shows "emits_only P (stop_and_exec_error_dialog e t m x)"
  unfolding stop_and_exec_error_dialog_def exec_user_dialog_def
  by (rule emits_only_do_all) (simp add: assms del: do_all.simps)

lemma emits_only_relink_dialog:
  assumes "\<And>i. P (QtSetIcon i)" "P StopSync" "P (SetText PauseAction ''Start Syncing'')"
    "P (SetEnabled PauseAction False)" "P (ExecRelinkDialog r)"
  shows "emits_only P (stop_and_exec_relink_dialog e r)"
  unfolding stop_and_exec_relink_dialog_def exec_relink_dialog_def
  by (rule emits_only_do_all) (simp add: assms emits_only_do_all del: do_all.simps)


lemma dispatch_trace:
  "\<exists>evs. trace (snd (dispatch e er g)) = trace g @ evs \<and>
         list_all (\<lambda>ev. ev \<noteq> ClearMaestralErrors) evs"
proof -
  let ?P = "\<lambda>ev. ev \<noteq> ClearMaestralErrors"
  have A: "\<And>t m x. \<exists>evs. trace (snd (stop_and_exec_error_dialog e t m x g)) = trace g @ evs \<and>
                 list_all ?P evs"
    by (rule emits_onlyD[OF emits_only_error_dialog]) simp_all
  have B: "\<And>r. \<exists>evs. trace (snd (stop_and_exec_relink_dialog e r g)) = trace g @ evs \<and>
                 list_all ?P evs"
    by (rule emits_onlyD[OF emits_only_relink_dialog]) simp_all
  have C: "\<exists>evs. trace (snd (do_all [mdbx_call ''stop_sync'' StopSync, restart e] g)) =
                   trace g @ evs \<and> list_all ?P evs"
    by (rule emits_onlyD[OF emits_only_do_all]) (simp add: emits_only_restart del: do_all.simps)
  have D: "\<And>t m x. \<exists>evs. trace (snd (do_all [stop_and_exec_error_dialog e t m x,
                                           mdbx_call ''start_sync'' StartSync] g)) =
                   trace g @ evs \<and> list_all ?P evs"
    by (rule emits_onlyD[OF emits_only_do_all])
       (simp add: emits_only_error_dialog del: do_all.simps)
  show ?thesis
    unfolding dispatch_def
    by (simp add: A B C D split: option.splits del: do_all.simps)
qed

text \<open>
  Claim C1. When the timer calls \<open>update_error\<close> (a proxy is held): with an empty batch
  it returns at once and leaves the object and the trace as they were; with a non-empty
  batch the first thing it does is \<open>clear_maestral_errors()\<close>, and nothing it does
  afterwards (whatever the error, and also when handling it raises or exits) clears the
  queue again. So every dialog, \<open>stop_sync\<close>, restart and \<open>start_sync\<close> comes after the
  one clearing.
\<close>

theorem update_error_clears_once_first:
  assumes "mdbx g \<noteq> None"
  shows "(maestral_errors d = [] \<longrightarrow> update_error e d g = (Returned (), g)) \<and>
         (maestral_errors d \<noteq> [] \<longrightarrow>
            (\<exists>evs. trace (snd (update_error e d g)) = trace g @ ClearMaestralErrors # evs \<and>
                   ClearMaestralErrors \<notin> set evs))"
proof (intro conjI impI)
  assume "maestral_errors d = []"
  then show "update_error e d g = (Returned (), g)"
    using assms by (auto simp: update_error_def)
next
  assume ne: "maestral_errors d \<noteq> []"
  define g1 where "g1 = log ClearMaestralErrors g"
  obtain evs where evs: "trace (snd (dispatch e (last (maestral_errors d)) g1)) = trace g1 @ evs"
    "list_all (\<lambda>ev. ev \<noteq> ClearMaestralErrors) evs"
    using dispatch_trace by blast
  have "update_error e d g = dispatch e (last (maestral_errors d)) g1"
    using assms ne
    by (cases "dispatch e (last (maestral_errors d)) (log ClearMaestralErrors g)")
       (auto simp: update_error_def mdbx_call_def g1_def split: outcome.splits)
  then have "trace (snd (update_error e d g)) = trace g @ ClearMaestralErrors # evs"
    using evs by (simp add: g1_def log_def)
  moreover have "ClearMaestralErrors \<notin> set evs"
    using evs(2) by (auto simp: list_all_iff)
  ultimately show "\<exists>evs. trace (snd (update_error e d g)) =
                     trace g @ ClearMaestralErrors # evs \<and>
                   ClearMaestralErrors \<notin> set evs" by blast
qed

theorem update_error_clears_once_first_witness:
  "mdbx example_gui \<noteq> None \<and>
   update_error example_env example_daemon example_gui = (Returned (), example_gui) \<and>
   (\<exists>evs. trace (snd (update_error example_env
                          (example_daemon\<lparr>maestral_errors := [err_of_type ''RevFileError'']\<rparr>)
                          example_gui)) =
            trace example_gui @ ClearMaestralErrors # evs \<and>
          ClearMaestralErrors \<notin> set evs)"
proof -
  have m: "mdbx example_gui \<noteq> None" by (simp add: example_gui_def)
  show ?thesis
    using m
      update_error_clears_once_first [OF m, where d = example_daemon and e = example_env]
      update_error_clears_once_first [OF m,
        where d = "example_daemon\<lparr>maestral_errors := [err_of_type ''RevFileError'']\<rparr>"
          and e = example_env]
    by (simp add: example_daemon_def)
qed

subsection \<open>What each kind of error does\<close>

lemma error_dialog_eval:
  assumes "mdbx g = Some p" "icons g (SYNCING e) = Some dflt"
  shows "stop_and_exec_error_dialog e t m x g =
     (Returned (),
      g\<lparr>priv_current_icon := SYNC_ERROR e,
        shown_icon := Some (case icons g (SYNC_ERROR e) of None \<Rightarrow> dflt | Some i \<Rightarrow> i),
        pauseAction := map_option (\<lambda>a. a\<lparr>a_text := ''Start Syncing''\<rparr>) (pauseAction g),
        trace := trace g @
          [QtSetIcon (case icons g (SYNC_ERROR e) of None \<Rightarrow> dflt | Some i \<Rightarrow> i), StopSync] @
          (case pauseAction g of None \<Rightarrow> [] | Some a \<Rightarrow> [SetText PauseAction ''Start Syncing'']) @
          [ExecUserDialog t m x]\<rparr>)"
  using assms
  by (cases "pauseAction g")
     (simp_all add: stop_and_exec_error_dialog_def setIcon_Some mdbx_call_def log_def ret_def
        setText_def exec_user_dialog_def emit_def)



lemma update_error_eval:
  assumes "mdbx g = Some p" "maestral_errors d \<noteq> []"
  shows "update_error e d g =
           dispatch e (last (maestral_errors d)) (log ClearMaestralErrors g)"
  using assms
  by (cases "dispatch e (last (maestral_errors d)) (log ClearMaestralErrors g)")
     (auto simp: update_error_def mdbx_call_def split: outcome.splits)

lemma log_fields [simp]:
  "mdbx (log ev g) = mdbx g" "icons (log ev g) = icons g" "pauseAction (log ev g) = pauseAction g"
  "trace (log ev g) = trace g @ [ev]" "priv_current_icon (log ev g) = priv_current_icon g"
  "shown_icon (log ev g) = shown_icon g"
  by (simp_all add: log_def)

text \<open>
  Claim C6. An error whose \<open>type\<close> is none of the six the chain names (and that carries
  a \<open>traceback\<close> entry) is handled, every time, by exactly this sequence after the
  clearing: the error icon is set, \<open>stop_sync\<close> is called, the pause entry is relabelled
  if it exists, the dialog is shown with the error's traceback, and \<open>start_sync\<close> is
  called once, last. The call returns normally.
\<close>

theorem unclassified_error_stop_notice_start:
  assumes "mdbx g = Some p" and "icons g (SYNCING e) = Some dflt"
    and "maestral_errors d \<noteq> []"
    and "last (maestral_errors d) ''type'' = Some ty"
    and "ty \<notin> {PyStr ''RevFileError'', PyStr ''BadInputError'', PyStr ''CursorResetError'',
               PyStr ''DropboxDeletedError'', PyStr ''DropboxAuthError'',
               PyStr ''TokenExpiredError''}"
    and "last (maestral_errors d) ''traceback'' = Some tb"
  shows "fst (update_error e d g) = Returned () \<and>
         new_events g (snd (update_error e d g)) =
           [ClearMaestralErrors,
            QtSetIcon (case icons g (SYNC_ERROR e) of None \<Rightarrow> dflt | Some i \<Rightarrow> i),
            StopSync] @
           (case pauseAction g of None \<Rightarrow> []
            | Some a \<Rightarrow> [SetText PauseAction ''Start Syncing'']) @
           [ExecUserDialog (PyStr ''An unexpected error occurred.'')
              (PyStr (''Please restart Maestral to continue syncing and contact '' @
                      ''the developer with the information below.''))
              tb,
            StartSync]"
proof -
  define g1 where "g1 = log ClearMaestralErrors g"
  have m1: "mdbx g1 = Some p" and i1: "icons g1 (SYNCING e) = Some dflt"
    using assms(1,2) by (simp_all add: g1_def)
  have "update_error e d g = dispatch e (last (maestral_errors d)) g1"
    using update_error_eval[OF assms(1,3)] by (simp add: g1_def)
  also have "\<dots> = do_all [stop_and_exec_error_dialog e
                        (PyStr ''An unexpected error occurred.'')
                        (PyStr (''Please restart Maestral to continue syncing and contact '' @
                                ''the developer with the information below.''))
                        tb,
                      mdbx_call ''start_sync'' StartSync] g1"
    using assms(4,5,6) by (simp add: dispatch_def del: do_all.simps)
  finally have "update_error e d g =
      (Returned (),
       log StartSync
         (g1\<lparr>priv_current_icon := SYNC_ERROR e,
            shown_icon := Some (case icons g1 (SYNC_ERROR e) of None \<Rightarrow> dflt | Some i \<Rightarrow> i),
            pauseAction := map_option (\<lambda>a. a\<lparr>a_text := ''Start Syncing''\<rparr>) (pauseAction g1),
            trace := trace g1 @
              [QtSetIcon (case icons g1 (SYNC_ERROR e) of None \<Rightarrow> dflt | Some i \<Rightarrow> i),
               StopSync] @
              (case pauseAction g1 of None \<Rightarrow> []
               | Some a \<Rightarrow> [SetText PauseAction ''Start Syncing'']) @
              [ExecUserDialog (PyStr ''An unexpected error occurred.'')
                 (PyStr (''Please restart Maestral to continue syncing and contact '' @
                         ''the developer with the information below.''))
                 tb]\<rparr>))"
    by (simp add: error_dialog_eval[OF m1 i1] mdbx_call_def m1)
  then show ?thesis
    by (simp add: new_events_def g1_def)
qed

theorem unclassified_error_stop_notice_start_witness:
  "fst (update_error example_env
          (example_daemon\<lparr>maestral_errors := [err_of_type ''MaestralApiError'']\<rparr>)
          example_gui) = Returned () \<and>
   new_events example_gui
       (snd (update_error example_env
               (example_daemon\<lparr>maestral_errors := [err_of_type ''MaestralApiError'']\<rparr>)
               example_gui)) =
     [ClearMaestralErrors, QtSetIcon (Icon ''error'' None), StopSync,
      SetText PauseAction ''Start Syncing'',
      ExecUserDialog (PyStr ''An unexpected error occurred.'')
        (PyStr (''Please restart Maestral to continue syncing and contact '' @
                ''the developer with the information below.''))
        (PyStr ''Traceback (most recent call last): ...''),
      StartSync]"
proof -
  let ?d = "example_daemon\<lparr>maestral_errors := [err_of_type ''MaestralApiError'']\<rparr>"
  have 1: "mdbx example_gui = Some (Proxy ''maestral'')"
    by (simp add: example_gui_def)
  have 2: "icons example_gui (SYNCING example_env) = Some (Icon ''syncing'' None)"
    by (simp add: example_gui_def example_env_def icon_mapping_def)
  have 3: "maestral_errors ?d \<noteq> []" by simp
  have 4: "last (maestral_errors ?d) ''type'' = Some (PyStr ''MaestralApiError'')"
    by (simp add: err_of_type_def)
  have 5: "PyStr ''MaestralApiError'' \<notin>
             {PyStr ''RevFileError'', PyStr ''BadInputError'', PyStr ''CursorResetError'',
              PyStr ''DropboxDeletedError'', PyStr ''DropboxAuthError'',
              PyStr ''TokenExpiredError''}"
    by simp
  have 6: "last (maestral_errors ?d) ''traceback'' =
             Some (PyStr ''Traceback (most recent call last): ...'')"
    by (simp add: err_of_type_def)
  have 7: "icons example_gui (SYNC_ERROR example_env) = Some (Icon ''error'' None)"
    by (simp add: example_gui_def example_env_def icon_mapping_def)
  have 8: "pauseAction example_gui = Some \<lparr>a_text = ''Pause Syncing'', a_enabled = True\<rparr>"
    by (simp add: example_gui_def)
  show ?thesis
    using unclassified_error_stop_notice_start [OF 1 2 3 4 5 6]
    by (simp add: 7 8)
qed











subsection \<open>Status reconciliation\<close>

lemma setText_Some:
  "get_widget w g = Some a \<Longrightarrow>
   setText w s g = (Returned (), log (SetText w s) (put_widget w (a\<lparr>a_text := s\<rparr>) g))"
  by (simp add: setText_def)

lemma update_status_unchanged:
  assumes "mdbx g \<noteq> None" "priv_status g = Some (status d)"
    "priv_n_errors g = Some (length (sync_errors d))"
  shows "update_status e d g = (Returned (), g)"
  using assms by (auto simp: update_status_def Let_def)

lemma update_status_changed_eval:
  assumes "mdbx g = Some p"
    and "\<not> (priv_status g = Some (status d) \<and> priv_n_errors g = Some (length (sync_errors d)))"
    and "icons g (SYNCING e) = Some dflt"
    and "syncIssuesAction g = Some sa" and "pauseAction g = Some pa"
    and "accountUsageAction g = Some ua"
    and "priv_n_errors g \<noteq> Some (length (sync_errors d)) \<longrightarrow> sync_issues_window g \<noteq> None"
  shows "update_status e d g =
    (Returned (),
     g\<lparr>priv_current_icon := (if paused d then PAUSED e else status d),
       shown_icon := Some (case icons g (if paused d then PAUSED e else status d) of
                             None \<Rightarrow> dflt | Some i \<Rightarrow> i),
       syncIssuesAction := Some (sa\<lparr>a_text :=
          (if length (sync_errors d) > 0
           then ''Show Sync Issues ('' @ str_of_nat (length (sync_errors d)) @ '')...''
           else ''Show Sync Issues...'')\<rparr>),
       pauseAction := Some (pa\<lparr>a_text := (if paused d then RESUME_TEXT else PAUSE_TEXT)\<rparr>),
       accountUsageAction := Some (ua\<lparr>a_text := usage d\<rparr>),
       statusAction := (statusAction g)\<lparr>a_text := elide_string e (status d)\<rparr>,
       tooltip := (if platform_system e = ''Darwin'' then tooltip g
                   else elide_string e (status d)),
       priv_n_errors := Some (length (sync_errors d)),
       priv_status := Some (status d),
       trace := trace g @
         [QtSetIcon (case icons g (if paused d then PAUSED e else status d) of
                       None \<Rightarrow> dflt | Some i \<Rightarrow> i),
          SetText SyncIssuesAction
            (if length (sync_errors d) > 0
             then ''Show Sync Issues ('' @ str_of_nat (length (sync_errors d)) @ '')...''
             else ''Show Sync Issues...''),
          SetText PauseAction (if paused d then RESUME_TEXT else PAUSE_TEXT),
          SetText AccountUsageAction (usage d),
          SetText StatusAction (elide_string e (status d))] @
         (if priv_n_errors g \<noteq> Some (length (sync_errors d))
          then [SyncIssuesWindowReload] else []) @
         (if platform_system e = ''Darwin'' then []
          else [QtSetToolTip (elide_string e (status d))])\<rparr>)"
proof -
  have ne: "\<not> (Some (status d) = priv_status g \<and> Some (length (sync_errors d)) = priv_n_errors g)"
    using assms(2) by auto
  show ?thesis
    using assms(1,3,4,5,6,7) ne
    by (cases "sync_issues_window g")
       (auto simp: update_status_def Let_def setIcon_Some setText_Some log_def ret_def
          sync_issues_window_reload_def setToolTip_def)
qed


text \<open>
  Claim C8. On a tick where the polled status or the number of sync errors differs from
  the cached pair (with the menu of \<open>setup_ui_linked\<close> in place), \<open>update_status\<close>
  returns; the new icon key is \<open>PAUSED\<close> when the polled \<open>paused\<close> flag is true and the
  polled status otherwise; the sync issues window is reloaded once when the number of
  errors differs from the cached number and not at all when it is the same; and the
  polled pair is cached.
\<close>

theorem update_status_icon_and_reload:
  assumes "mdbx g = Some p"
    and "\<not> (priv_status g = Some (status d) \<and> priv_n_errors g = Some (length (sync_errors d)))"
    and "icons g (SYNCING e) = Some dflt"
    and "syncIssuesAction g = Some sa" and "pauseAction g = Some pa"
    and "accountUsageAction g = Some ua" and "sync_issues_window g = Some w"
  shows "\<exists>g'. update_status e d g = (Returned (), g') \<and>
     priv_current_icon g' = (if paused d then PAUSED e else status d) \<and>
     shown_icon g' = Some (case icons g (if paused d then PAUSED e else status d) of
                             None \<Rightarrow> dflt | Some i \<Rightarrow> i) \<and>
     count_list (new_events g g') SyncIssuesWindowReload =
       (if priv_n_errors g = Some (length (sync_errors d)) then 0 else 1) \<and>
     priv_status g' = Some (status d) \<and> priv_n_errors g' = Some (length (sync_errors d))"
proof -
  have w: "priv_n_errors g \<noteq> Some (length (sync_errors d)) \<longrightarrow> sync_issues_window g \<noteq> None"
    using assms(7) by simp
  note ev = update_status_changed_eval[OF assms(1,2,3,4,5,6) w]
  show ?thesis
    unfolding ev by (simp add: new_events_def)
qed

lemma update_status_Returned:
  assumes "update_status e d g = (Returned (), g1)"
  shows "mdbx g1 \<noteq> None \<and> priv_status g1 = Some (status d) \<and>
         priv_n_errors g1 = Some (length (sync_errors d))"
proof (cases "mdbx g")
  case None
  then show ?thesis using assms by (simp add: update_status_def)
next
  case (Some p)
  show ?thesis
  proof (cases "priv_status g = Some (status d) \<and> priv_n_errors g = Some (length (sync_errors d))")
    case True
    then have "update_status e d g = (Returned (), g)"
      using Some by (simp add: update_status_unchanged)
    then show ?thesis using assms True Some by simp
  next
    case False
    then have ne: "\<not> (Some (status d) = priv_status g \<and>
                      Some (length (sync_errors d)) = priv_n_errors g)" by auto
    show ?thesis
    proof (cases "icons g (SYNCING e)")
      case None
      then show ?thesis using assms Some ne
        by (simp add: update_status_def Let_def setIcon_def)
    next
      case i: (Some dflt)
      show ?thesis
      proof (cases "syncIssuesAction g")
        case None
        then show ?thesis using assms Some ne i
          by (auto simp: update_status_def Let_def setIcon_Some setText_def log_def split: if_splits)
      next
        case sa: (Some sa)
        show ?thesis
        proof (cases "pauseAction g")
          case None
          then show ?thesis using assms Some ne i sa
            by (auto simp: update_status_def Let_def setIcon_Some setText_def log_def split: if_splits)
        next
          case pa: (Some pa)
          show ?thesis
          proof (cases "accountUsageAction g")
            case None
            then show ?thesis using assms Some ne i sa pa
              by (auto simp: update_status_def Let_def setIcon_Some setText_def log_def split: if_splits)
          next
            case ua: (Some ua)
            show ?thesis
            proof (cases "priv_n_errors g \<noteq> Some (length (sync_errors d)) \<and>
                          sync_issues_window g = None")
              case True
              then have "Some (length (sync_errors d)) \<noteq> priv_n_errors g" by auto
              then show ?thesis using assms Some ne i sa pa ua True
                by (auto simp: update_status_def Let_def setIcon_Some setText_def log_def
                      sync_issues_window_reload_def split: if_splits)
            next
              case False
              then have w: "priv_n_errors g \<noteq> Some (length (sync_errors d)) \<longrightarrow>
                            sync_issues_window g \<noteq> None" by auto
              from \<open>\<not> (priv_status g = Some (status d) \<and> priv_n_errors g = Some (length (sync_errors d)))\<close>
              have "g1 = snd (update_status e d g)" using assms by simp
              then show ?thesis
                using Some
                by (simp add: update_status_changed_eval[OF Some _ i sa pa ua w]
                      \<open>\<not> (priv_status g = Some (status d) \<and> priv_n_errors g = Some (length (sync_errors d)))\<close>)
            qed
          qed
        qed
      qed
    qed
  qed
qed

text \<open>
  Claim C4. If a tick of \<open>update_status\<close> has returned, and the next tick polls the same
  status and the same number of sync errors, the next tick returns at once and changes
  nothing: the state, the cached pair included, and the trace of calls (no icon, no
  label, no tooltip, no reload) are exactly as before.
\<close>

theorem update_status_second_tick_inert:
  assumes "update_status e d1 g0 = (Returned (), g1)"
    and "status d2 = status d1"
    and "length (sync_errors d2) = length (sync_errors d1)"
  shows "update_status e d2 g1 = (Returned (), g1)"
  using update_status_Returned[OF assms(1)] assms(2,3)
  by (simp add: update_status_unchanged)

theorem update_status_second_tick_inert_witness:
  "fst (update_status example_env example_daemon example_gui) = Returned () \<and>
   update_status example_env (example_daemon\<lparr>usage := ''1.3 GB of 2 GB used''\<rparr>)
     (snd (update_status example_env example_daemon example_gui)) =
   (Returned (), snd (update_status example_env example_daemon example_gui))"
proof -
  have r: "fst (update_status example_env example_daemon example_gui) = Returned ()"
    using update_status_changed_eval
      [of example_gui "Proxy ''maestral''" example_daemon example_env "Icon ''syncing'' None"]
    by (simp add: example_gui_def example_env_def icon_mapping_def)
  then have t: "update_status example_env example_daemon example_gui =
             (Returned (), snd (update_status example_env example_daemon example_gui))"
    by (cases "update_status example_env example_daemon example_gui") simp
  show ?thesis
    using r update_status_second_tick_inert
      [OF t, of "example_daemon\<lparr>usage := ''1.3 GB of 2 GB used''\<rparr>"]
    by simp
qed

theorem update_status_icon_and_reload_witness:
  "\<exists>g'. update_status example_env example_daemon example_gui = (Returned (), g') \<and>
     priv_current_icon g' = ''Syncing...'' \<and>
     shown_icon g' = Some (Icon ''syncing'' None) \<and>
     count_list (new_events example_gui g') SyncIssuesWindowReload = 1 \<and>
     priv_status g' = Some ''Syncing...'' \<and> priv_n_errors g' = Some 0"
proof -
  have 1: "mdbx example_gui = Some (Proxy ''maestral'')"
    and 2: "\<not> (priv_status example_gui = Some (status example_daemon) \<and>
               priv_n_errors example_gui = Some (length (sync_errors example_daemon)))"
    and 3: "icons example_gui (SYNCING example_env) = Some (Icon ''syncing'' None)"
    and 4: "syncIssuesAction example_gui =
              Some \<lparr>a_text = ''Show Sync Issues...'', a_enabled = True\<rparr>"
    and 5: "pauseAction example_gui = Some \<lparr>a_text = ''Pause Syncing'', a_enabled = True\<rparr>"
    and 6: "accountUsageAction example_gui =
              Some \<lparr>a_text = ''1.2 GB of 2 GB used'', a_enabled = False\<rparr>"
    and 7: "sync_issues_window example_gui = Some ()"
    by (simp_all add: example_gui_def example_env_def icon_mapping_def)
  have 8: "paused example_daemon = False" "status example_daemon = ''Syncing...''"
    "sync_errors example_daemon = []" "priv_n_errors example_gui = None"
    "icons example_gui ''Syncing...'' = Some (Icon ''syncing'' None)"
    by (simp_all add: example_daemon_def example_gui_def example_env_def icon_mapping_def)
  show ?thesis
    using update_status_icon_and_reload [OF 1 2 3 4 5 6 7]
    by (simp add: 8)
qed

end
